theory Spec2Isabelle
  imports Complex_Main "HOL-Library.Monad_Syntax" "HOL-Library.Dlist"
begin

section \<open>Numbers\<close>

text \<open>
  The scripts compute with Python and numpy floats. A float is modelled as an exact real
  number or the value NaN: NaN is written by the scripts themselves (\<open>np.nan\<close>), is what a
  null property of a GeoJSON file is read as, and decides which rows the numpy and pandas
  reductions use. Rounding and the infinities are not modelled.
\<close>

datatype pyfloat = NaN | Val real

text \<open>Arithmetic on floats: NaN in, NaN out.\<close>

fun fmul :: "pyfloat \<Rightarrow> pyfloat \<Rightarrow> pyfloat" where
  "fmul (Val a) (Val b) = Val (a * b)"
| "fmul _ _ = NaN"

fun fdiv :: "pyfloat \<Rightarrow> pyfloat \<Rightarrow> pyfloat" where
  "fdiv (Val a) (Val b) = Val (a / b)"
| "fdiv _ _ = NaN"

text \<open>Comparison \<open>a <= b\<close> of floats: False as soon as one side is NaN.\<close>

fun fle :: "pyfloat \<Rightarrow> pyfloat \<Rightarrow> bool" where
  "fle (Val a) (Val b) = (a \<le> b)"
| "fle _ _ = False"

text \<open>The values of a column that are not NaN, in order (pandas' \<open>skipna\<close>).\<close>

fun dropna :: "pyfloat list \<Rightarrow> real list" where
  "dropna [] = []"
| "dropna (NaN # xs) = dropna xs"
| "dropna (Val x # xs) = x # dropna xs"

text \<open>The median of a non-empty list of numbers: the middle of the sorted list, or the
  mean of the two middle elements.\<close>

definition median :: "real list \<Rightarrow> real" where
  "median xs =
     (let s = sort xs; n = length s
      in if odd n then s ! (n div 2) else (s ! (n div 2 - 1) + s ! (n div 2)) / 2)"

subsection \<open>numpy reductions\<close>

text \<open>
  \<open>np.sum\<close>, \<open>np.mean\<close>, \<open>np.median\<close>, \<open>np.min\<close> and \<open>np.max\<close> let a NaN through to
  the result. \<open>np.mean\<close> and \<open>np.median\<close> of an empty array are NaN (with a warning);
  \<open>np.min\<close> and \<open>np.max\<close> of an empty array raise ValueError, the value None here.
\<close>

definition np_sum :: "pyfloat list \<Rightarrow> pyfloat" where
  "np_sum xs = (if NaN \<in> set xs then NaN else Val (sum_list (dropna xs)))"

definition np_mean :: "pyfloat list \<Rightarrow> pyfloat" where
  "np_mean xs = (if xs = [] then NaN else fdiv (np_sum xs) (Val (real (length xs))))"

definition np_median :: "pyfloat list \<Rightarrow> pyfloat" where
  "np_median xs = (if xs = [] \<or> NaN \<in> set xs then NaN else Val (median (dropna xs)))"

definition np_min :: "pyfloat list \<Rightarrow> pyfloat option" where
  "np_min xs =
     (if xs = [] then None
      else if NaN \<in> set xs then Some NaN
      else Some (Val (Min (set (dropna xs)))))"

definition np_max :: "pyfloat list \<Rightarrow> pyfloat option" where
  "np_max xs =
     (if xs = [] then None
      else if NaN \<in> set xs then Some NaN
      else Some (Val (Max (set (dropna xs)))))"

text \<open>
  \<open>np.average(a, weights=w)\<close>: \<open>scl = w.sum()\<close>; ZeroDivisionError when \<open>scl == 0.0\<close>
  ("Weights sum to zero, can't be normalized"); otherwise \<open>(a * w).sum() / scl\<close>. The
  two arrays must have the same shape.
\<close>

definition np_average :: "pyfloat list \<Rightarrow> pyfloat list \<Rightarrow> pyfloat option" where
  "np_average a w =
     (let scl = np_sum w
      in if length a \<noteq> length w then None
         else if scl = Val 0 then None
         else Some (fdiv (np_sum (map2 fmul a w)) scl))"

subsection \<open>pandas reductions\<close>

text \<open>
  The reductions of a pandas Series skip NaN: \<open>sum\<close> of nothing is 0, and \<open>mean\<close>,
  \<open>median\<close>, \<open>min\<close> and \<open>max\<close> of nothing are NaN.
\<close>

definition pd_sum :: "pyfloat list \<Rightarrow> real" where
  "pd_sum xs = sum_list (dropna xs)"

definition pd_mean :: "pyfloat list \<Rightarrow> pyfloat" where
  "pd_mean xs =
     (let ys = dropna xs in if ys = [] then NaN else Val (sum_list ys / real (length ys)))"

definition pd_median :: "pyfloat list \<Rightarrow> pyfloat" where
  "pd_median xs = (let ys = dropna xs in if ys = [] then NaN else Val (median ys))"

definition pd_min :: "pyfloat list \<Rightarrow> pyfloat" where
  "pd_min xs = (let ys = dropna xs in if ys = [] then NaN else Val (Min (set ys)))"

definition pd_max :: "pyfloat list \<Rightarrow> pyfloat" where
  "pd_max xs = (let ys = dropna xs in if ys = [] then NaN else Val (Max (set ys)))"

text \<open>\<open>Series.unique()\<close>: the distinct values, in order of first appearance.\<close>

definition unique :: "'a list \<Rightarrow> 'a list" where
  "unique xs = rev (remdups (rev xs))"

text \<open>The values of a column that are not null, in order.\<close>

fun notnull :: "'a option list \<Rightarrow> 'a list" where
  "notnull [] = []"
| "notnull (None # xs) = notnull xs"
| "notnull (Some x # xs) = x # notnull xs"

section \<open>Facility metrics (05\_compute\_metrics.py)\<close>

text \<open>
  A row of the grids file as \<open>compute_facility_metrics\<close> reads it: the columns it uses.
  A null \<open>assigned_facility\<close> is None, a null number is NaN. The frame also says which
  columns the file has, since the function asks for \<open>assigned_facility\<close> and
  \<open>population\<close>. The column \<open>route_distance_km\<close> is read without a check: on a
  frame that lacks it the read raises KeyError (lines 60 and 112), which is None below.
  The fields of a row under a column that the frame lacks are never read.
\<close>

record grid =
  assigned_facility :: "string option"
  population :: pyfloat
  route_distance_km :: pyfloat

record 'r dataframe =
  columns :: "string list"
  rows :: "'r list"

type_synonym geodataframe = "grid dataframe"

text \<open>A row of the metrics table. The two percentages are missing (None) from the
  'No facilities' row, which has no such keys.\<close>

record metrics =
  district :: string
  facility_name :: string
  total_grids_served :: nat
  population_served :: real
  mean_distance_km :: pyfloat
  median_distance_km :: pyfloat
  min_distance_km :: pyfloat
  max_distance_km :: pyfloat
  pop_weighted_distance_km :: pyfloat
  pop_within_5km :: real
  pop_within_10km :: real
  pop_within_20km :: real
  percent_within_5km :: "real option"
  percent_within_10km :: "real option"

text \<open>\<open>frame[frame['route_distance_km'] <= band]['population'].sum()\<close>\<close>

definition pop_within :: "grid list \<Rightarrow> real \<Rightarrow> real" where
  "pop_within gs band =
     pd_sum (map population (filter (\<lambda>g. fle (route_distance_km g) (Val band)) gs))"

text \<open>The row returned when there is no assignment (lines 28 to 43).\<close>

definition no_facilities :: "string \<Rightarrow> metrics" where
  "no_facilities district_name =
     \<lparr> district = district_name,
       facility_name = ''No facilities'',
       total_grids_served = 0,
       population_served = 0,
       mean_distance_km = NaN,
       median_distance_km = NaN,
       min_distance_km = NaN,
       max_distance_km = NaN,
       pop_weighted_distance_km = NaN,
       pop_within_5km = 0,
       pop_within_10km = 0,
       pop_within_20km = 0,
       percent_within_5km = None,
       percent_within_10km = None \<rparr>"

text \<open>The body of the loop over the facilities (lines 52 to 97): the metrics of one
  facility. None when the column \<open>route_distance_km\<close> is missing (KeyError at
  line 60) or when a numpy call raises.\<close>

definition facility_metrics :: "geodataframe \<Rightarrow> string \<Rightarrow> string \<Rightarrow> metrics option" where
  "facility_metrics grids district_name name =
     (let facility_grids = filter (\<lambda>g. assigned_facility g = Some name) (rows grids);
          has_pop = (''population'' \<in> set (columns grids));
          total_grids = length facility_grids;
          total_pop = (if has_pop then pd_sum (map population facility_grids) else 0);
          distances = map route_distance_km facility_grids;
          mean_dist = np_mean distances;
          median_dist = np_median distances
      in if ''route_distance_km'' \<notin> set (columns grids) then None else do {
        min_dist \<leftarrow> np_min distances;
        max_dist \<leftarrow> np_max distances;
        pop_weighted_dist \<leftarrow>
          (if has_pop \<and> total_pop > 0
           then np_average distances (map population facility_grids)
           else Some mean_dist);
        let within_5km = (if has_pop then pop_within facility_grids 5 else 0);
        let within_10km = (if has_pop then pop_within facility_grids 10 else 0);
        let within_20km = (if has_pop then pop_within facility_grids 20 else 0);
        Some \<lparr> district = district_name,
               facility_name = name,
               total_grids_served = total_grids,
               population_served = total_pop,
               mean_distance_km = mean_dist,
               median_distance_km = median_dist,
               min_distance_km = min_dist,
               max_distance_km = max_dist,
               pop_weighted_distance_km = pop_weighted_dist,
               pop_within_5km = within_5km,
               pop_within_10km = within_10km,
               pop_within_20km = within_20km,
               percent_within_5km =
                 Some (if total_pop > 0 then within_5km / total_pop * 100 else 0),
               percent_within_10km =
                 Some (if total_pop > 0 then within_10km / total_pop * 100 else 0) \<rparr>
      })"

text \<open>The loop (lines 48 to 50): a null facility name is skipped.\<close>

fun metrics_loop :: "geodataframe \<Rightarrow> string \<Rightarrow> string option list \<Rightarrow> metrics list option" where
  "metrics_loop grids district_name [] = Some []"
| "metrics_loop grids district_name (None # names) = metrics_loop grids district_name names"
| "metrics_loop grids district_name (Some name # names) =
     do {
       m \<leftarrow> facility_metrics grids district_name name;
       ms \<leftarrow> metrics_loop grids district_name names;
       Some (m # ms)
     }"

text \<open>The district-level summary (lines 107 to 125), over all the rows. None when the
  column \<open>route_distance_km\<close> is missing (KeyError at line 112).\<close>

definition district_summary :: "geodataframe \<Rightarrow> string \<Rightarrow> metrics option" where
  "district_summary grids district_name =
     (let has_pop = (''population'' \<in> set (columns grids));
          pops = map population (rows grids);
          distances = map route_distance_km (rows grids);
          total_pop = (if has_pop then pd_sum pops else 0);
          within_5km = (if has_pop then pop_within (rows grids) 5 else 0);
          within_10km = (if has_pop then pop_within (rows grids) 10 else 0);
          within_20km = (if has_pop then pop_within (rows grids) 20 else 0)
      in if ''route_distance_km'' \<notin> set (columns grids) then None else do {
        pop_weighted_dist \<leftarrow>
          (if has_pop \<and> pd_sum pops > 0
           then np_average distances pops
           else Some (pd_mean distances));
        Some \<lparr> district = district_name,
               facility_name = ''DISTRICT_TOTAL'',
               total_grids_served = length (rows grids),
               population_served = total_pop,
               mean_distance_km = pd_mean distances,
               median_distance_km = pd_median distances,
               min_distance_km = pd_min distances,
               max_distance_km = pd_max distances,
               pop_weighted_distance_km = pop_weighted_dist,
               pop_within_5km = within_5km,
               pop_within_10km = within_10km,
               pop_within_20km = within_20km,
               percent_within_5km =
                 Some (if has_pop \<and> pd_sum pops > 0 then within_5km / pd_sum pops * 100 else 0),
               percent_within_10km =
                 Some (if has_pop \<and> pd_sum pops > 0 then within_10km / pd_sum pops * 100 else 0) \<rparr>
      })"

definition compute_facility_metrics :: "geodataframe \<Rightarrow> string \<Rightarrow> metrics list option" where
  "compute_facility_metrics grids district_name =
     (if ''assigned_facility'' \<notin> set (columns grids)
         \<or> list_all (\<lambda>g. assigned_facility g = None) (rows grids)
      then Some [no_facilities district_name]
      else do {
        metrics_list \<leftarrow>
          metrics_loop grids district_name (unique (map assigned_facility (rows grids)));
        summary \<leftarrow> district_summary grids district_name;
        Some (metrics_list @ [summary])
      })"




text \<open>
  The population-weighted quantile as the specification has it: among the distances in
  increasing order, the first one at which the population of the grids that are no
  farther reaches the fraction \<open>q\<close> of the total population. The weighted median is the
  weighted quantile of level one half.
\<close>

definition weighted_quantile :: "real \<Rightarrow> real list \<Rightarrow> real list \<Rightarrow> real" where
  "weighted_quantile q ds ws =
     (let pairs = sort_key fst (zip ds ws);
          total = sum_list ws
      in fst (hd (filter
           (\<lambda>p. q * total \<le> sum_list (map snd (filter (\<lambda>p'. fst p' \<le> fst p) pairs)))
           pairs)))"

definition weighted_median :: "real list \<Rightarrow> real list \<Rightarrow> real" where
  "weighted_median ds ws = weighted_quantile (1 / 2) ds ws"

section \<open>Population of the grids (03\_extract\_population.py)\<close>

text \<open>
  The comparisons \<open>a != b\<close> and \<open>a > b\<close> of floats: with a NaN on either side \<open>!=\<close> is True
  and \<open>>\<close> is False.
\<close>

fun fne :: "pyfloat \<Rightarrow> pyfloat \<Rightarrow> bool" where
  "fne (Val a) (Val b) = (a \<noteq> b)"
| "fne _ _ = True"

fun fgt :: "pyfloat \<Rightarrow> pyfloat \<Rightarrow> bool" where
  "fgt (Val a) (Val b) = (a > b)"
| "fgt _ _ = False"

text \<open>
  The raster as \<open>extract_population\<close> uses it: its nodata value (None when the file sets
  none) and, for the geometry of a grid, the pixels of the first band in the window that
  \<open>rasterio.mask.mask(src, [geometry], crop=True, ...)\<close> crops, each with whether the
  polygon covers it. The window is None when \<open>mask\<close> (or reading the row's geometry) raises,
  for instance because the polygon does not overlap the raster. The frame and the raster
  are taken as already read and in the same coordinate system (lines 24 to 34); pixel
  values are exact reals or NaN.
\<close>

record 'g raster =
  nodata :: "pyfloat option"
  window :: "'g \<Rightarrow> (bool \<times> pyfloat) list option"

text \<open>
  \<open>mask(src, [geometry], crop=True, nodata=src.nodata)\<close>, first band: the pixels that the
  polygon does not cover are set to the nodata value, or to 0 when there is none.
\<close>

definition mask :: "'g raster \<Rightarrow> 'g \<Rightarrow> pyfloat list option" where
  "mask src geom =
     map_option
       (map (\<lambda>(inside, v). if inside then v
                            else (case nodata src of None \<Rightarrow> Val 0 | Some nd \<Rightarrow> nd)))
       (window src geom)"

text \<open>The body of the loop (lines 44 to 62): the population of one grid.\<close>

definition grid_population :: "'g raster \<Rightarrow> 'g \<Rightarrow> pyfloat" where
  "grid_population src geom =
     (case mask src geom of
        None \<Rightarrow> Val 0
      | Some out_image \<Rightarrow>
          (let valid_data = (case nodata src of
                               None \<Rightarrow> out_image
                             | Some nd \<Rightarrow> filter (\<lambda>v. fne v nd) out_image);
               valid_data = filter (\<lambda>v. fgt v (Val 0)) valid_data
           in if length valid_data > 0 then np_sum valid_data else Val 0))"

text \<open>The loop over the rows (lines 37 to 62) appends one population per row.\<close>

fun populations_loop :: "'g raster \<Rightarrow> 'g list \<Rightarrow> pyfloat list" where
  "populations_loop src [] = []"
| "populations_loop src (geom # grids) = grid_population src geom # populations_loop src grids"

text \<open>\<open>grids['population'] = populations\<close> (line 64): each row with its population.\<close>

definition extract_population :: "'g list \<Rightarrow> 'g raster \<Rightarrow> ('g \<times> pyfloat) list" where
  "extract_population grids src = zip grids (populations_loop src grids)"

section \<open>Grid generation (02\_generate\_grids.py)\<close>


datatype polygon = Polygon "(real \<times> real) list"

text \<open>A row of the grids frame that the function returns.\<close>

record 'h hexagon =
  hex_id :: 'h
  geometry :: polygon
  centroid_lat :: real
  centroid_lon :: real



section \<open>Accessibility (04\_calculate\_accessibility.py)\<close>

text \<open>
  A row of the facilities table: the columns that the script reads. A missing name is
  None. Coordinates are numbers (exact reals): NaN or infinite coordinates are not part
  of the model.
\<close>

record facility =
  name :: "string option"
  latitude :: real
  longitude :: real

text \<open>
  A row of the grids frame of this script: the columns that the metrics stage reads, the
  centroid of the cell, and the other columns that this script adds. As before the frame
  says which columns it has, and the field under a column that the frame lacks is never
  read: a read of a missing column raises KeyError, which is None below.
\<close>

record routed_grid = grid +
  centroid_lat :: real
  centroid_lon :: real
  assigned_facility_id :: nat
  assigned_facility_lat :: real
  assigned_facility_lon :: real
  straight_line_distance_km :: pyfloat
  travel_time_min :: pyfloat

text \<open>\<open>frame[c] = values\<close>: the column is replaced when the frame has it, and added at the
  end otherwise.\<close>

definition set_column :: "string \<Rightarrow> string list \<Rightarrow> string list" where
  "set_column c cols = (if c \<in> set cols then cols else cols @ [c])"

subsection \<open>Assignment to the nearest facility\<close>

text \<open>The Euclidean distance of two points (latitude, longitude), in degrees: the
  metric of \<open>cKDTree.query\<close>.\<close>

definition euclidean :: "real \<times> real \<Rightarrow> real \<times> real \<Rightarrow> real" where
  "euclidean p q = sqrt ((fst p - fst q) ^ 2 + (snd p - snd q) ^ 2)"

text \<open>
  \<open>tree.query(x)\<close> for one point, given the distances from the point to the points of
  the tree: the position of a nearest one. Which of several equally near points the
  library returns is not specified; this scan returns the first.
\<close>

fun nearest :: "real list \<Rightarrow> nat" where
  "nearest [] = 0"
| "nearest [d] = 0"
| "nearest (d # e # ds) =
     (let i = nearest (e # ds) in if d \<le> (e # ds) ! i then 0 else Suc i)"

text \<open>The columns that lines 41 to 45 give to one grid.\<close>

definition assign_row :: "facility list \<Rightarrow> routed_grid \<Rightarrow> routed_grid" where
  "assign_row facilities row =
     (let facility_coords = map (\<lambda>f. (latitude f, longitude f)) facilities;
          distances = map (euclidean (centroid_lat row, centroid_lon row)) facility_coords;
          i = nearest distances
      in row\<lparr> assigned_facility := name (facilities ! i),
              assigned_facility_id := i,
              assigned_facility_lat := fst (facility_coords ! i),
              assigned_facility_lon := snd (facility_coords ! i),
              straight_line_distance_km := Val (distances ! i * 111) \<rparr>)"

text \<open>
  \<open>assign_grids_to_facilities\<close> (lines 14 to 50). It raises: KeyError when a row is read
  from a frame without the centroid columns (line 28) or when the facilities table lacks
  a coordinate column (line 32) or the name column (line 41); ValueError in \<open>tree.query\<close>
  when there is no grid (the array of no points has shape (0,), line 38); and IndexError
  in \<open>facilities.iloc\<close> when there is no facility (line 41).
\<close>

definition assign_grids_to_facilities ::
    "routed_grid dataframe \<Rightarrow> facility dataframe \<Rightarrow> routed_grid dataframe option" where
  "assign_grids_to_facilities grids facilities =
     (if rows grids \<noteq> [] \<and> \<not> (''centroid_lat'' \<in> set (columns grids)
                              \<and> ''centroid_lon'' \<in> set (columns grids)) then None
      else if \<not> (''latitude'' \<in> set (columns facilities)
                 \<and> ''longitude'' \<in> set (columns facilities)) then None
      else if rows grids = [] then None
      else if rows facilities = [] then None
      else if ''name'' \<notin> set (columns facilities) then None
      else Some \<lparr> columns = fold set_column
                      [''assigned_facility'', ''assigned_facility_id'',
                       ''assigned_facility_lat'', ''assigned_facility_lon'',
                       ''straight_line_distance_km''] (columns grids),
                  rows = map (assign_row (rows facilities)) (rows grids) \<rparr>)"

subsection \<open>Routing\<close>

text \<open>
  The body of a response as \<open>response.json()\<close> parses it. Numbers are exact reals; the
  literals NaN and Infinity that the parser also accepts are not part of the model.
\<close>

datatype json =
    JNull
  | JBool bool
  | JNum real
  | JStr string
  | JList "json list"
  | JDict "(string \<times> json) list"

text \<open>
  The outcome of \<open>requests.get\<close>: an exception (no connection, timeout), or a response
  with its status code and its body, None when the body is not JSON and
  \<open>response.json()\<close> raises.
\<close>

datatype http_result = RequestFailed | Response nat "json option"

text \<open>
  A request is the URL of line 85: host, port, and the longitude and latitude of the
  origin and of the destination. The server gives the outcome of a request, which may
  depend on how many requests were made before.
\<close>

type_synonym request = "string \<times> int \<times> real \<times> real \<times> real \<times> real"

type_synonym server = "nat \<Rightarrow> request \<Rightarrow> http_result"

text \<open>
  Python on parsed JSON, None when it raises: \<open>x[key]\<close> for a string key (of an object,
  the last of equal keys), \<open>len(x)\<close>, \<open>x[0]\<close>, and \<open>x / k\<close> for a number \<open>k\<close> (a boolean
  counts as 1 or 0).
\<close>

fun getitem :: "json \<Rightarrow> string \<Rightarrow> json option" where
  "getitem (JDict kvs) key = map_of (rev kvs) key"
| "getitem _ key = None"

fun py_len :: "json \<Rightarrow> nat option" where
  "py_len (JList xs) = Some (length xs)"
| "py_len (JStr s) = Some (length s)"
| "py_len (JDict kvs) = Some (length (remdups (map fst kvs)))"
| "py_len _ = None"

fun getitem0 :: "json \<Rightarrow> json option" where
  "getitem0 (JList (x # xs)) = Some x"
| "getitem0 (JStr (c # cs)) = Some (JStr [c])"
| "getitem0 _ = None"

fun truediv :: "json \<Rightarrow> real \<Rightarrow> pyfloat option" where
  "truediv (JNum x) k = Some (Val (x / k))"
| "truediv (JBool b) k = Some (Val ((if b then 1 else 0) / k))"
| "truediv _ k = None"

text \<open>
  The two lists \<open>route_distances\<close> and \<open>route_durations\<close> when the \<open>try\<close> block (lines 88
  to 107) ends: normally, or with an exception.
\<close>

datatype attempt =
    Done "pyfloat list \<times> pyfloat list"
  | Raised "pyfloat list \<times> pyfloat list"

text \<open>
  The fallback of lines 102 and 103 (and 106, 107, 112, 113): the straight-line distance,
  and the time at 30 km/h. \<open>straight\<close> is \<open>row['straight_line_distance_km']\<close>, None when
  the frame lacks the column and the read raises KeyError.
\<close>

definition fallback ::
    "pyfloat option \<Rightarrow> pyfloat list \<times> pyfloat list \<Rightarrow> (pyfloat list \<times> pyfloat list) option" where
  "fallback straight acc =
     (case straight of
        None \<Rightarrow> None
      | Some s \<Rightarrow> Some (fst acc @ [s], snd acc @ [fdiv s (Val (1 / 2))]))"

text \<open>\<open>distance_m\<close> and \<open>duration_s\<close> of lines 95 and 96.\<close>

definition first_route :: "json \<Rightarrow> (json \<times> json) option" where
  "first_route data =
     do {
       routes \<leftarrow> getitem data ''routes'';
       route \<leftarrow> getitem0 routes;
       distance_m \<leftarrow> getitem route ''distance'';
       duration_s \<leftarrow> getitem route ''duration'';
       Some (distance_m, duration_s)
     }"

text \<open>
  The \<open>try\<close> block for one grid. Line 98 appends the distance before line 99 divides the
  duration: when that division raises, the distance is already in \<open>route_distances\<close>.
\<close>

definition try_route ::
    "http_result \<Rightarrow> pyfloat option \<Rightarrow> pyfloat list \<times> pyfloat list \<Rightarrow> attempt" where
  "try_route response straight acc =
     (let in_try = (\<lambda>r. case r of None \<Rightarrow> Raised acc | Some acc' \<Rightarrow> Done acc')
      in case response of
           RequestFailed \<Rightarrow> Raised acc
         | Response status_code body \<Rightarrow>
             if status_code = 200 then
               (case body of
                  None \<Rightarrow> Raised acc
                | Some data \<Rightarrow>
                    (case getitem data ''code'' of
                       None \<Rightarrow> Raised acc
                     | Some code \<Rightarrow>
                         if code = JStr ''Ok'' then
                           (case Option.bind (getitem data ''routes'') py_len of
                              None \<Rightarrow> Raised acc
                            | Some n \<Rightarrow>
                                if n > 0 then
                                  (case first_route data of
                                     None \<Rightarrow> Raised acc
                                   | Some (distance_m, duration_s) \<Rightarrow>
                                       (case truediv distance_m 1000 of
                                          None \<Rightarrow> Raised acc
                                        | Some d \<Rightarrow>
                                            (case truediv duration_s 60 of
                                               None \<Rightarrow> Raised (fst acc @ [d], snd acc)
                                             | Some t \<Rightarrow>
                                                 Done (fst acc @ [d], snd acc @ [t]))))
                                else in_try (fallback straight acc))
                         else in_try (fallback straight acc)))
             else in_try (fallback straight acc))"

text \<open>The \<open>except\<close> block (lines 109 to 113) appends the fallback to the lists as the
  \<open>try\<close> block left them. None when the handler itself raises.\<close>

definition route_row ::
    "http_result \<Rightarrow> pyfloat option \<Rightarrow> pyfloat list \<times> pyfloat list
       \<Rightarrow> (pyfloat list \<times> pyfloat list) option" where
  "route_row response straight acc =
     (case try_route response straight acc of
        Done acc' \<Rightarrow> Some acc'
      | Raised acc' \<Rightarrow> fallback straight acc')"

text \<open>The loop over the rows (lines 75 to 116), with the requests made so far.\<close>

fun osrm_loop ::
    "server \<Rightarrow> string \<Rightarrow> int \<Rightarrow> bool \<Rightarrow> routed_grid list
       \<Rightarrow> (pyfloat list \<times> pyfloat list) \<times> request list
       \<Rightarrow> ((pyfloat list \<times> pyfloat list) \<times> request list) option" where
  "osrm_loop http osrm_host osrm_port has_straight [] state = Some state"
| "osrm_loop http osrm_host osrm_port has_straight (row # grids) (acc, requests) =
     (let url = (osrm_host, osrm_port, centroid_lon row, centroid_lat row,
                 assigned_facility_lon row, assigned_facility_lat row);
          response = http (length requests) url;
          straight = (if has_straight then Some (straight_line_distance_km row) else None)
      in case route_row response straight acc of
           None \<Rightarrow> None
         | Some acc' \<Rightarrow>
             osrm_loop http osrm_host osrm_port has_straight grids (acc', requests @ [url]))"

text \<open>
  \<open>calculate_osrm_distances\<close> (lines 53 to 125): the frame with the two new columns, and
  the requests made. It raises KeyError when a row is read from a frame without the
  coordinates (lines 79 to 82), and ValueError when a list does not have one value per
  row (lines 118 and 119).
\<close>

definition calculate_osrm_distances ::
    "server \<Rightarrow> routed_grid dataframe \<Rightarrow> string \<Rightarrow> int
       \<Rightarrow> (routed_grid dataframe \<times> request list) option" where
  "calculate_osrm_distances http grids osrm_host osrm_port =
     (if rows grids \<noteq> [] \<and> \<not> (''centroid_lon'' \<in> set (columns grids)
                              \<and> ''centroid_lat'' \<in> set (columns grids)
                              \<and> ''assigned_facility_lon'' \<in> set (columns grids)
                              \<and> ''assigned_facility_lat'' \<in> set (columns grids)) then None
      else case osrm_loop http osrm_host osrm_port
                  (''straight_line_distance_km'' \<in> set (columns grids)) (rows grids)
                  (([], []), []) of
             None \<Rightarrow> None
           | Some ((route_distances, route_durations), requests) \<Rightarrow>
               if length route_distances \<noteq> length (rows grids) then None
               else if length route_durations \<noteq> length (rows grids) then None
               else Some
                 (\<lparr> columns = fold set_column [''route_distance_km'', ''travel_time_min'']
                                (columns grids),
                    rows = map (\<lambda>(row, d, t). row\<lparr> route_distance_km := d,
                                                 travel_time_min := t \<rparr>)
                             (zip (rows grids) (zip route_distances route_durations)) \<rparr>,
                  requests))"

subsection \<open>The script\<close>

text \<open>
  The script from the loaded tables to the frame that it writes, with the requests made
  (lines 147 to 168). None when it stops without writing: \<open>sys.exit(1)\<close> when the
  facilities table lacks a required column, or an exception.
\<close>

definition main ::
    "server \<Rightarrow> routed_grid dataframe \<Rightarrow> facility dataframe \<Rightarrow> string \<Rightarrow> int
       \<Rightarrow> (routed_grid dataframe \<times> request list) option" where
  "main http grids facilities osrm_host osrm_port =
     (if \<not> list_all (\<lambda>col. col \<in> set (columns facilities)) [''name'', ''latitude'', ''longitude'']
      then None
      else if length (rows facilities) = 0
      then Some
        (\<lparr> columns = fold set_column
                       [''assigned_facility'', ''route_distance_km'', ''travel_time_min'']
                       (columns grids),
           rows = map (\<lambda>row. row\<lparr> assigned_facility := None,
                                   route_distance_km := NaN,
                                   travel_time_min := NaN \<rparr>) (rows grids) \<rparr>,
         [])
      else do {
        grids \<leftarrow> assign_grids_to_facilities grids facilities;
        calculate_osrm_distances http grids osrm_host osrm_port
      })"

section \<open>Properties of the facility metrics\<close>

subsection \<open>The numpy calls of the metrics never raise\<close>

lemma np_min_Some: "xs \<noteq> [] \<Longrightarrow> \<exists>v. np_min xs = Some v"
  by (simp add: np_min_def)

lemma np_max_Some: "xs \<noteq> [] \<Longrightarrow> \<exists>v. np_max xs = Some v"
  by (simp add: np_max_def)

lemma np_average_eq:
  assumes "length a = length w" and "0 < pd_sum w"
  shows "np_average a w = Some (fdiv (np_sum (map2 fmul a w)) (np_sum w))"
proof -
  have "np_sum w \<noteq> Val 0"
    using assms(2) by (auto simp: np_sum_def pd_sum_def)
  then show ?thesis
    using assms(1) by (simp add: np_average_def Let_def)
qed

lemma facility_metrics_Some:
  assumes "filter (\<lambda>g. assigned_facility g = Some fname) (rows grids) \<noteq> []"
    and rd: "''route_distance_km'' \<in> set (columns grids)"
  shows "\<exists>m. facility_metrics grids district_name fname = Some m"
proof -
  let ?fg = "filter (\<lambda>g. assigned_facility g = Some fname) (rows grids)"
  obtain lo where lo: "np_min (map route_distance_km ?fg) = Some lo"
    using np_min_Some [of "map route_distance_km ?fg"] assms(1) by auto
  obtain hi where hi: "np_max (map route_distance_km ?fg) = Some hi"
    using np_max_Some [of "map route_distance_km ?fg"] assms(1) by auto
  show ?thesis
  proof (cases "''population'' \<in> set (columns grids) \<and> 0 < pd_sum (map population ?fg)")
    case True
    then have "np_average (map route_distance_km ?fg) (map population ?fg)
      = Some (fdiv (np_sum (map2 fmul (map route_distance_km ?fg) (map population ?fg)))
           (np_sum (map population ?fg)))"
      by (intro np_average_eq) simp_all
    with True lo hi rd show ?thesis
      by (simp add: facility_metrics_def Let_def)
  next
    case False
    with lo hi rd show ?thesis
      by (auto simp add: facility_metrics_def Let_def)
  qed
qed

lemma facility_metrics_name:
  "facility_metrics grids district_name fname = Some m \<Longrightarrow> facility_name m = fname"
  by (auto simp: facility_metrics_def Let_def split: bind_splits if_splits)

lemma district_summary_Some:
  assumes rd: "''route_distance_km'' \<in> set (columns grids)"
  shows "\<exists>m. district_summary grids district_name = Some m"
proof (cases "''population'' \<in> set (columns grids) \<and> 0 < pd_sum (map population (rows grids))")
  case True
  then have "np_average (map route_distance_km (rows grids)) (map population (rows grids))
      = Some (fdiv (np_sum (map2 fmul (map route_distance_km (rows grids)) (map population (rows grids))))
           (np_sum (map population (rows grids))))"
    by (intro np_average_eq) simp_all
  with True rd show ?thesis
    by (simp add: district_summary_def Let_def)
next
  case False
  with rd show ?thesis
    by (auto simp add: district_summary_def Let_def)
qed

lemma district_summary_name:
  "district_summary grids district_name = Some m \<Longrightarrow> facility_name m = ''DISTRICT_TOTAL''"
  by (auto simp: district_summary_def Let_def split: bind_splits if_splits)

lemma distinct_unique: "distinct (unique xs)"
  by (simp add: unique_def)

lemma set_unique: "set (unique xs) = set xs"
  by (simp add: unique_def)

lemma set_notnull: "set (notnull xs) = {n. Some n \<in> set xs}"
  by (induction xs rule: notnull.induct) auto

lemma distinct_notnull: "distinct xs \<Longrightarrow> distinct (notnull xs)"
  by (induction xs rule: notnull.induct) (auto simp: set_notnull)

lemma metrics_loop_Some:
  assumes "\<And>n. Some n \<in> set names \<Longrightarrow>
             filter (\<lambda>g. assigned_facility g = Some n) (rows grids) \<noteq> []"
    and "''route_distance_km'' \<in> set (columns grids)"
  shows "\<exists>ms. metrics_loop grids dn names = Some ms
           \<and> map Some ms = map (facility_metrics grids dn) (notnull names)
           \<and> map facility_name ms = notnull names"
  using assms
proof (induction grids dn names rule: metrics_loop.induct)
  case (1 grids dn)
  then show ?case by simp
next
  case (2 grids dn names)
  then show ?case by simp
next
  case (3 grids dn fname names)
  obtain m where m: "facility_metrics grids dn fname = Some m"
    using facility_metrics_Some [of fname grids dn] "3.prems" by auto
  obtain ms where ms: "metrics_loop grids dn names = Some ms"
      "map Some ms = map (facility_metrics grids dn) (notnull names)"
      "map facility_name ms = notnull names"
    using "3.IH" [OF m] "3.prems" by auto
  show ?case
    using m ms facility_metrics_name [OF m] by simp
qed

lemma unique_nonempty:
  "Some n \<in> set (unique (map assigned_facility gs)) \<Longrightarrow>
     filter (\<lambda>g. assigned_facility g = Some n) gs \<noteq> []"
  by (auto simp: set_unique filter_empty_conv)













lemma metrics_loop_rows:
  assumes "\<And>n. Some n \<in> set names \<Longrightarrow>
             filter (\<lambda>g. assigned_facility g = Some n) (rows grids) \<noteq> []"
    and "''route_distance_km'' \<in> set (columns grids)"
  shows "\<exists>ms. metrics_loop grids dn names = Some ms
           \<and> map Some ms = map (facility_metrics grids dn) (notnull names)"
  using metrics_loop_Some [OF assms] by blast

lemma compute_facility_metrics_assigned:
  assumes "''assigned_facility'' \<in> set (columns grids)"
    and "\<exists>g \<in> set (rows grids). assigned_facility g \<noteq> None"
    and rd: "''route_distance_km'' \<in> set (columns grids)"
  shows "\<exists>ms s. compute_facility_metrics grids dn = Some (ms @ [s])
           \<and> district_summary grids dn = Some s
           \<and> map Some ms = map (facility_metrics grids dn)
                (notnull (unique (map assigned_facility (rows grids))))"
proof -
  let ?u = "unique (map assigned_facility (rows grids))"
  obtain ms where ms: "metrics_loop grids dn ?u = Some ms"
      "map Some ms = map (facility_metrics grids dn) (notnull ?u)"
    using metrics_loop_rows [of ?u grids dn] unique_nonempty rd by blast
  obtain s where s: "district_summary grids dn = Some s"
    using district_summary_Some [OF rd] by blast
  have "\<not> list_all (\<lambda>g. assigned_facility g = None) (rows grids)"
    using assms(2) by (auto simp: list_all_iff)
  then have "compute_facility_metrics grids dn = Some (ms @ [s])"
    using assms(1) ms(1) s by (simp add: compute_facility_metrics_def)
  then show ?thesis using ms(2) s by blast
qed

lemma facility_row_in_result:
  assumes "''assigned_facility'' \<in> set (columns grids)"
    and "g \<in> set (rows grids)" and "assigned_facility g = Some fname"
    and rd: "''route_distance_km'' \<in> set (columns grids)"
  shows "\<exists>ms s m. compute_facility_metrics grids dn = Some (ms @ [s])
           \<and> district_summary grids dn = Some s
           \<and> facility_metrics grids dn fname = Some m \<and> m \<in> set ms"
proof -
  from assms(2,3) have ex: "\<exists>g \<in> set (rows grids). assigned_facility g \<noteq> None" by auto
  obtain ms s where r: "compute_facility_metrics grids dn = Some (ms @ [s])"
      "district_summary grids dn = Some s"
      "map Some ms = map (facility_metrics grids dn)
         (notnull (unique (map assigned_facility (rows grids))))"
    using compute_facility_metrics_assigned [OF assms(1) ex rd] by blast
  have "fname \<in> set (notnull (unique (map assigned_facility (rows grids))))"
    using assms(2,3) by (force simp: set_notnull set_unique)
  then have "facility_metrics grids dn fname \<in> set (map Some ms)"
    unfolding r(3) by simp
  then obtain m where "facility_metrics grids dn fname = Some m" "m \<in> set ms"
    by auto
  with r show ?thesis by blast
qed

lemma result_row_cases:
  assumes "compute_facility_metrics grids dn = Some res" and "m \<in> set res"
    and rd: "''route_distance_km'' \<in> set (columns grids)"
  shows "m = no_facilities dn
       \<or> district_summary grids dn = Some m
       \<or> (\<exists>fname. filter (\<lambda>g. assigned_facility g = Some fname) (rows grids) \<noteq> []
             \<and> facility_metrics grids dn fname = Some m)"
proof (cases "''assigned_facility'' \<notin> set (columns grids)
         \<or> list_all (\<lambda>g. assigned_facility g = None) (rows grids)")
  case True
  then have "res = [no_facilities dn]"
    using assms(1) by (auto simp: compute_facility_metrics_def)
  then show ?thesis using assms(2) by simp
next
  case False
  then have c: "''assigned_facility'' \<in> set (columns grids)"
    and ex: "\<exists>g \<in> set (rows grids). assigned_facility g \<noteq> None"
    by (auto simp: list_all_iff)
  obtain ms s where r: "compute_facility_metrics grids dn = Some (ms @ [s])"
      "district_summary grids dn = Some s"
      "map Some ms = map (facility_metrics grids dn)
         (notnull (unique (map assigned_facility (rows grids))))"
    using compute_facility_metrics_assigned [OF c ex rd] by blast
  from r(1) assms have "m \<in> set ms \<or> m = s" by auto
  then show ?thesis
  proof
    assume "m \<in> set ms"
    then have "Some m \<in> set (map Some ms)" by simp
    then obtain fname where n: "fname \<in> set (notnull (unique (map assigned_facility (rows grids))))"
        "facility_metrics grids dn fname = Some m"
      unfolding r(3) by auto
    from n(1) have "filter (\<lambda>g. assigned_facility g = Some fname) (rows grids) \<noteq> []"
      by (auto simp: set_notnull set_unique filter_empty_conv)
    with n(2) show ?thesis by blast
  next
    assume "m = s"
    with r(2) show ?thesis by simp
  qed
qed

subsection \<open>A frame without the column of the route distances\<close>

lemma facility_metrics_KeyError:
  "''route_distance_km'' \<notin> set (columns grids) \<Longrightarrow> facility_metrics grids dn fname = None"
  by (simp add: facility_metrics_def Let_def)

lemma district_summary_KeyError:
  "''route_distance_km'' \<notin> set (columns grids) \<Longrightarrow> district_summary grids dn = None"
  by (simp add: district_summary_def Let_def)

lemma metrics_loop_KeyError:
  assumes "''route_distance_km'' \<notin> set (columns grids)" and "Some n \<in> set names"
  shows "metrics_loop grids dn names = None"
  using assms
  by (induction grids dn names rule: metrics_loop.induct)
     (auto simp: facility_metrics_KeyError)

lemma compute_facility_metrics_KeyError:
  assumes "''assigned_facility'' \<in> set (columns grids)"
    and "\<exists>g \<in> set (rows grids). assigned_facility g \<noteq> None"
    and "''route_distance_km'' \<notin> set (columns grids)"
  shows "compute_facility_metrics grids dn = None"
proof -
  from assms(2) obtain g n where "g \<in> set (rows grids)" "assigned_facility g = Some n"
    by auto
  then have "Some n \<in> set (unique (map assigned_facility (rows grids)))"
    by (force simp: set_unique)
  then have "metrics_loop grids dn (unique (map assigned_facility (rows grids))) = None"
    using metrics_loop_KeyError [OF assms(3)] by blast
  moreover have "\<not> list_all (\<lambda>g. assigned_facility g = None) (rows grids)"
    using assms(2) by (auto simp: list_all_iff)
  ultimately show ?thesis
    using assms(1) by (simp add: compute_facility_metrics_def)
qed

subsection \<open>The rows of the metrics table\<close>

text \<open>
  Claim C7, as the code has it. When the frame has the column \<open>assigned_facility\<close>, a row
  with a non-null facility and the column \<open>route_distance_km\<close>,
  \<open>compute_facility_metrics\<close> returns one metrics row for each distinct non-null assigned
  facility (each name once, each row the metrics of its facility) and, last, one district
  summary named 'DISTRICT_TOTAL'. With an assignment but without the column
  \<open>route_distance_km\<close> it raises and returns nothing. When the column
  \<open>assigned_facility\<close> is absent or null on every row it returns the single row
  'No facilities', with zero grids, zero population served, zero population within 5, 10
  and 20 km, NaN distance statistics and no percentages.
\<close>

theorem compute_facility_metrics_rows:
  "(''assigned_facility'' \<in> set (columns grids)
      \<and> (\<exists>g \<in> set (rows grids). assigned_facility g \<noteq> None)
      \<and> ''route_distance_km'' \<in> set (columns grids) \<longrightarrow>
      (\<exists>names ms summary.
         compute_facility_metrics grids dn = Some (ms @ [summary]) \<and>
         distinct names \<and>
         set names = {n. \<exists>g \<in> set (rows grids). assigned_facility g = Some n} \<and>
         map facility_name ms = names \<and>
         map Some ms = map (facility_metrics grids dn) names \<and>
         district_summary grids dn = Some summary \<and>
         facility_name summary = ''DISTRICT_TOTAL'')) \<and>
   (''assigned_facility'' \<in> set (columns grids)
      \<and> (\<exists>g \<in> set (rows grids). assigned_facility g \<noteq> None)
      \<and> ''route_distance_km'' \<notin> set (columns grids) \<longrightarrow>
      compute_facility_metrics grids dn = None) \<and>
   (''assigned_facility'' \<notin> set (columns grids)
      \<or> (\<forall>g \<in> set (rows grids). assigned_facility g = None) \<longrightarrow>
      compute_facility_metrics grids dn = Some
        [\<lparr> district = dn,
           facility_name = ''No facilities'',
           total_grids_served = 0,
           population_served = 0,
           mean_distance_km = NaN,
           median_distance_km = NaN,
           min_distance_km = NaN,
           max_distance_km = NaN,
           pop_weighted_distance_km = NaN,
           pop_within_5km = 0,
           pop_within_10km = 0,
           pop_within_20km = 0,
           percent_within_5km = None,
           percent_within_10km = None \<rparr>])"
proof (intro conjI impI)
  assume a: "''assigned_facility'' \<in> set (columns grids)
      \<and> (\<exists>g \<in> set (rows grids). assigned_facility g \<noteq> None)
      \<and> ''route_distance_km'' \<in> set (columns grids)"
  then have rd: "''route_distance_km'' \<in> set (columns grids)" by simp
  let ?u = "unique (map assigned_facility (rows grids))"
  let ?names = "notnull ?u"
  obtain ms where ms: "metrics_loop grids dn ?u = Some ms"
      "map Some ms = map (facility_metrics grids dn) ?names"
      "map facility_name ms = ?names"
    using metrics_loop_Some [of ?u grids dn] unique_nonempty rd by blast
  obtain summary where s: "district_summary grids dn = Some summary"
    using district_summary_Some [OF rd] by blast
  have "\<not> list_all (\<lambda>g. assigned_facility g = None) (rows grids)"
    using a by (auto simp: list_all_iff)
  then have "compute_facility_metrics grids dn = Some (ms @ [summary])"
    using a ms(1) s by (simp add: compute_facility_metrics_def)
  moreover have "distinct ?names"
    by (simp add: distinct_notnull distinct_unique)
  moreover have "set ?names = {n. \<exists>g \<in> set (rows grids). assigned_facility g = Some n}"
    by (force simp: set_notnull set_unique)
  ultimately show "\<exists>names ms summary.
         compute_facility_metrics grids dn = Some (ms @ [summary]) \<and>
         distinct names \<and>
         set names = {n. \<exists>g \<in> set (rows grids). assigned_facility g = Some n} \<and>
         map facility_name ms = names \<and>
         map Some ms = map (facility_metrics grids dn) names \<and>
         district_summary grids dn = Some summary \<and>
         facility_name summary = ''DISTRICT_TOTAL''"
    using ms(2,3) s district_summary_name [OF s] by blast
next
  assume "''assigned_facility'' \<in> set (columns grids)
      \<and> (\<exists>g \<in> set (rows grids). assigned_facility g \<noteq> None)
      \<and> ''route_distance_km'' \<notin> set (columns grids)"
  then show "compute_facility_metrics grids dn = None"
    using compute_facility_metrics_KeyError [of grids dn] by blast
next
  assume "''assigned_facility'' \<notin> set (columns grids)
      \<or> (\<forall>g \<in> set (rows grids). assigned_facility g = None)"
  then have "compute_facility_metrics grids dn = Some [no_facilities dn]"
    by (auto simp: compute_facility_metrics_def list_all_iff)
  then show "compute_facility_metrics grids dn = Some
        [\<lparr> district = dn,
           facility_name = ''No facilities'',
           total_grids_served = 0,
           population_served = 0,
           mean_distance_km = NaN,
           median_distance_km = NaN,
           min_distance_km = NaN,
           max_distance_km = NaN,
           pop_weighted_distance_km = NaN,
           pop_within_5km = 0,
           pop_within_10km = 0,
           pop_within_20km = 0,
           percent_within_5km = None,
           percent_within_10km = None \<rparr>]"
    by (simp add: no_facilities_def)
qed

theorem compute_facility_metrics_rows_witness:
  "(\<exists>names ms summary.
      compute_facility_metrics
        \<lparr> columns = [''assigned_facility'', ''population'', ''route_distance_km''],
          rows = [\<lparr> assigned_facility = Some ''A'', population = Val 10, route_distance_km = Val 2 \<rparr>,
                  \<lparr> assigned_facility = None, population = Val 5, route_distance_km = NaN \<rparr>,
                  \<lparr> assigned_facility = Some ''B'', population = Val 0, route_distance_km = Val 7 \<rparr>,
                  \<lparr> assigned_facility = Some ''A'', population = Val 30, route_distance_km = Val 4 \<rparr>] \<rparr>
        ''D'' = Some (ms @ [summary]) \<and>
      distinct names \<and> set names = {''A'', ''B''} \<and> map facility_name ms = names \<and>
      facility_name summary = ''DISTRICT_TOTAL'') \<and>
   compute_facility_metrics
        \<lparr> columns = [''assigned_facility'', ''population''],
          rows = [\<lparr> assigned_facility = Some ''A'', population = Val 10, route_distance_km = NaN \<rparr>,
                  \<lparr> assigned_facility = Some ''B'', population = Val 3, route_distance_km = NaN \<rparr>] \<rparr>
        ''D'' = None \<and>
   compute_facility_metrics
        \<lparr> columns = [''assigned_facility'', ''route_distance_km''],
          rows = [\<lparr> assigned_facility = None, population = NaN, route_distance_km = NaN \<rparr>] \<rparr>
        ''D'' = Some
        [\<lparr> district = ''D'',
           facility_name = ''No facilities'',
           total_grids_served = 0,
           population_served = 0,
           mean_distance_km = NaN,
           median_distance_km = NaN,
           min_distance_km = NaN,
           max_distance_km = NaN,
           pop_weighted_distance_km = NaN,
           pop_within_5km = 0,
           pop_within_10km = 0,
           pop_within_20km = 0,
           percent_within_5km = None,
           percent_within_10km = None \<rparr>]"
proof -
  let ?G = "\<lparr> columns = [''assigned_facility'', ''population'', ''route_distance_km''],
          rows = [\<lparr> assigned_facility = Some ''A'', population = Val 10, route_distance_km = Val 2 \<rparr>,
                  \<lparr> assigned_facility = None, population = Val 5, route_distance_km = NaN \<rparr>,
                  \<lparr> assigned_facility = Some ''B'', population = Val 0, route_distance_km = Val 7 \<rparr>,
                  \<lparr> assigned_facility = Some ''A'', population = Val 30, route_distance_km = Val 4 \<rparr>] \<rparr>"
  let ?K = "\<lparr> columns = [''assigned_facility'', ''population''],
          rows = [\<lparr> assigned_facility = Some ''A'', population = Val 10, route_distance_km = NaN \<rparr>,
                  \<lparr> assigned_facility = Some ''B'', population = Val 3, route_distance_km = NaN \<rparr>] \<rparr>"
  let ?E = "\<lparr> columns = [''assigned_facility'', ''route_distance_km''],
          rows = [\<lparr> assigned_facility = None, population = NaN, route_distance_km = NaN \<rparr>] \<rparr>"
  have s: "{n. \<exists>g \<in> set (rows ?G). assigned_facility g = Some n} = {''A'', ''B''}"
    by auto
  have 1: "''assigned_facility'' \<in> set (columns ?G)
      \<and> (\<exists>g \<in> set (rows ?G). assigned_facility g \<noteq> None)
      \<and> ''route_distance_km'' \<in> set (columns ?G)"
    by simp
  have 2: "''assigned_facility'' \<in> set (columns ?K)
      \<and> (\<exists>g \<in> set (rows ?K). assigned_facility g \<noteq> None)
      \<and> ''route_distance_km'' \<notin> set (columns ?K)"
    by simp
  have 3: "''assigned_facility'' \<notin> set (columns ?E)
      \<or> (\<forall>g \<in> set (rows ?E). assigned_facility g = None)"
    by simp
  from compute_facility_metrics_rows [of ?G "''D''"] 1 s
  have a: "\<exists>names ms summary.
      compute_facility_metrics ?G ''D'' = Some (ms @ [summary]) \<and>
      distinct names \<and> set names = {''A'', ''B''} \<and> map facility_name ms = names \<and>
      facility_name summary = ''DISTRICT_TOTAL''"
    by (metis (no_types, lifting))
  from compute_facility_metrics_rows [of ?K "''D''"] 2
  have b: "compute_facility_metrics ?K ''D'' = None"
    by blast
  from compute_facility_metrics_rows [of ?E "''D''"] 3
  have c: "compute_facility_metrics ?E ''D'' = Some
        [\<lparr> district = ''D'',
           facility_name = ''No facilities'',
           total_grids_served = 0,
           population_served = 0,
           mean_distance_km = NaN,
           median_distance_km = NaN,
           min_distance_km = NaN,
           max_distance_km = NaN,
           pop_weighted_distance_km = NaN,
           pop_within_5km = 0,
           pop_within_10km = 0,
           pop_within_20km = 0,
           percent_within_5km = None,
           percent_within_10km = None \<rparr>]"
    by blast
  from a b c show ?thesis by blast
qed

text \<open>
  The claim as the specification words it does not hold on every frame with an assigned
  grid: this frame has the column \<open>assigned_facility\<close> and a grid assigned to facility 'A',
  but no column \<open>route_distance_km\<close>, and the function returns no row at all (the read at
  line 60 raises KeyError).
\<close>

theorem compute_facility_metrics_rows_counterexample:
  "compute_facility_metrics
     \<lparr> columns = [''assigned_facility''],
       rows = [\<lparr> assigned_facility = Some ''A'', population = NaN, route_distance_km = NaN \<rparr>] \<rparr>
     ''D'' = None"
  by (simp add: compute_facility_metrics_def unique_def facility_metrics_def Let_def)

subsection \<open>The population-weighted distance\<close>

lemma facility_metrics_population_served:
  "facility_metrics grids dn fname = Some m \<Longrightarrow>
     population_served m =
       (if ''population'' \<in> set (columns grids)
        then pd_sum (map population (filter (\<lambda>g. assigned_facility g = Some fname) (rows grids)))
        else 0)"
  by (auto simp: facility_metrics_def Let_def split: bind_splits if_splits)

lemma district_summary_population_served:
  "district_summary grids dn = Some s \<Longrightarrow>
     population_served s =
       (if ''population'' \<in> set (columns grids) then pd_sum (map population (rows grids)) else 0)"
  by (auto simp: district_summary_def Let_def split: bind_splits if_splits)




subsection \<open>The median distance\<close>

lemma facility_metrics_median:
  "facility_metrics grids dn fname = Some m \<Longrightarrow>
     median_distance_km m =
       np_median (map route_distance_km
         (filter (\<lambda>g. assigned_facility g = Some fname) (rows grids)))"
  by (auto simp: facility_metrics_def Let_def split: bind_splits if_splits)

lemma district_summary_median:
  "district_summary grids dn = Some s \<Longrightarrow>
     median_distance_km s = pd_median (map route_distance_km (rows grids))"
  by (auto simp: district_summary_def Let_def split: bind_splits if_splits)

text \<open>
  Claim C5, as the code has it. The \<open>median_distance_km\<close> of a facility's row is
  \<open>np.median\<close> of the route distances of the grids assigned to the facility (line 62),
  and that of the district summary is the pandas median of the route distances of all the
  grids (line 113): the plain median, the middle of the sorted distances, in which the
  populations of the grids play no part.
\<close>

theorem median_distance_km_unweighted:
  assumes "''assigned_facility'' \<in> set (columns grids)"
    and "''route_distance_km'' \<in> set (columns grids)"
    and "g \<in> set (rows grids)" and "assigned_facility g = Some fname"
    and "fg = filter (\<lambda>g. assigned_facility g = Some fname) (rows grids)"
  shows "\<exists>ms s m. compute_facility_metrics grids dn = Some (ms @ [s]) \<and>
     m \<in> set ms \<and> facility_name m = fname \<and> facility_name s = ''DISTRICT_TOTAL'' \<and>
     median_distance_km m = np_median (map route_distance_km fg) \<and>
     median_distance_km s = pd_median (map route_distance_km (rows grids))"
proof -
  obtain ms s m where r: "compute_facility_metrics grids dn = Some (ms @ [s])"
      "district_summary grids dn = Some s"
      "facility_metrics grids dn fname = Some m" "m \<in> set ms"
    using facility_row_in_result [OF assms(1,3,4,2), of dn] by blast
  have nm: "facility_name m = fname"
    using r(3) by (rule facility_metrics_name)
  have ns: "facility_name s = ''DISTRICT_TOTAL''"
    using r(2) by (rule district_summary_name)
  have mm: "median_distance_km m = np_median (map route_distance_km fg)"
    using facility_metrics_median [OF r(3)] assms(5) by simp
  have sm: "median_distance_km s = pd_median (map route_distance_km (rows grids))"
    using r(2) by (rule district_summary_median)
  show ?thesis
    by (intro exI [of _ ms] exI [of _ s] exI [of _ m] conjI)
       (rule r(1) r(4) nm ns mm sm)+
qed

theorem median_distance_km_unweighted_witness:
  "\<exists>ms s m.
      compute_facility_metrics
        \<lparr> columns = [''assigned_facility'', ''population'', ''route_distance_km''],
          rows = [\<lparr> assigned_facility = Some ''A'', population = Val 0, route_distance_km = Val 1 \<rparr>,
                  \<lparr> assigned_facility = Some ''A'', population = Val 0, route_distance_km = Val 2 \<rparr>,
                  \<lparr> assigned_facility = Some ''A'', population = Val 10, route_distance_km = Val 3 \<rparr>] \<rparr>
        ''D'' = Some (ms @ [s]) \<and>
      m \<in> set ms \<and> facility_name m = ''A'' \<and> facility_name s = ''DISTRICT_TOTAL'' \<and>
      median_distance_km m = Val 2 \<and> median_distance_km s = Val 2"
proof -
  let ?a1 = "\<lparr> assigned_facility = Some ''A'', population = Val 0, route_distance_km = Val 1 \<rparr>"
  let ?a2 = "\<lparr> assigned_facility = Some ''A'', population = Val 0, route_distance_km = Val 2 \<rparr>"
  let ?a3 = "\<lparr> assigned_facility = Some ''A'', population = Val 10, route_distance_km = Val 3 \<rparr>"
  let ?G = "\<lparr> columns = [''assigned_facility'', ''population'', ''route_distance_km''],
              rows = [?a1, ?a2, ?a3] \<rparr>"
  have ca: "''assigned_facility'' \<in> set (columns ?G)" by simp
  have cr: "''route_distance_km'' \<in> set (columns ?G)" by simp
  have ga: "?a1 \<in> set (rows ?G)" by simp
  have na: "assigned_facility ?a1 = Some ''A''" by simp
  have fa: "[?a1, ?a2, ?a3] = filter (\<lambda>g. assigned_facility g = Some ''A'') (rows ?G)" by simp
  have m1: "np_median (map route_distance_km [?a1, ?a2, ?a3]) = Val 2"
    by (simp add: np_median_def median_def)
  have m2: "pd_median (map route_distance_km (rows ?G)) = Val 2"
    by (simp add: pd_median_def median_def)
  from median_distance_km_unweighted [OF ca cr ga na fa, of "''D''"]
  obtain ms s m where a: "compute_facility_metrics ?G ''D'' = Some (ms @ [s])"
      "m \<in> set ms" "facility_name m = ''A''" "facility_name s = ''DISTRICT_TOTAL''"
      "median_distance_km m = np_median (map route_distance_km [?a1, ?a2, ?a3])"
      "median_distance_km s = pd_median (map route_distance_km (rows ?G))"
    by (elim exE conjE) (rule that; assumption)
  have a5: "median_distance_km m = Val 2" using a(5) m1 by simp
  have a6: "median_distance_km s = Val 2" using a(6) m2 by simp
  show ?thesis
    by (intro exI [of _ ms] exI [of _ s] exI [of _ m] conjI)
       (rule a(1) a(2) a(3) a(4) a5 a6)+
qed

text \<open>
  The median is not the population-weighted one. Three grids of facility 'A' at 1, 2 and
  3 km, with all the 10 inhabitants in the farthest: the code reports the median 2 km for
  the facility and for the district, while the population-weighted median is 3 km.
\<close>

theorem median_distance_km_weighted_counterexample:
  "map_option (map median_distance_km)
     (compute_facility_metrics
        \<lparr> columns = [''assigned_facility'', ''population'', ''route_distance_km''],
          rows = [\<lparr> assigned_facility = Some ''A'', population = Val 0, route_distance_km = Val 1 \<rparr>,
                  \<lparr> assigned_facility = Some ''A'', population = Val 0, route_distance_km = Val 2 \<rparr>,
                  \<lparr> assigned_facility = Some ''A'', population = Val 10, route_distance_km = Val 3 \<rparr>] \<rparr>
        ''D'') = Some [Val 2, Val 2]
   \<and> weighted_median [1, 2, 3] [0, 0, 10] = 3"
  by (simp add: compute_facility_metrics_def unique_def facility_metrics_def
      district_summary_def Let_def np_min_def np_max_def np_average_def np_sum_def
      np_mean_def np_median_def pd_sum_def pd_mean_def pd_median_def pd_min_def pd_max_def
      median_def pop_within_def weighted_median_def weighted_quantile_def)

subsection \<open>Consistency of the statistics of a facility\<close>






lemma pd_sum_filter_bounds:
  assumes "\<forall>g \<in> set gs. fle (Val 0) (population g)"
  shows "0 \<le> pd_sum (map population (filter Q gs))
       \<and> pd_sum (map population (filter Q gs)) \<le> pd_sum (map population gs)"
  using assms
proof (induction gs)
  case Nil
  then show ?case by (simp add: pd_sum_def)
next
  case (Cons g gs)
  then obtain p where p: "population g = Val p" "0 \<le> p"
    by (cases "population g") auto
  from Cons have "0 \<le> pd_sum (map population (filter Q gs))
       \<and> pd_sum (map population (filter Q gs)) \<le> pd_sum (map population gs)"
    by simp
  with p show ?case by (simp add: pd_sum_def)
qed

lemma pd_sum_nonneg:
  assumes "\<forall>g \<in> set gs. fle (Val 0) (population g)"
  shows "0 \<le> pd_sum (map population gs)"
  using pd_sum_filter_bounds [OF assms, of "\<lambda>g. True"] by simp














section \<open>Properties of the population of the grids\<close>

lemma valid_data_nodata:
  "filter (\<lambda>v. fgt v (Val 0))
     (filter (\<lambda>v. fne v nd)
        (map (\<lambda>p. if fst p then snd p else nd) px)) =
   filter (\<lambda>v. Some v \<noteq> Some nd \<and> fgt v (Val 0)) (map snd (filter fst px))"
proof (induction px)
  case Nil
  then show ?case by simp
next
  case (Cons p px)
  obtain inside v where p: "p = (inside, v)" by (cases p)
  show ?case
  proof (cases inside)
    case True
    have "(fne v nd \<and> fgt v (Val 0)) = (v \<noteq> nd \<and> fgt v (Val 0))"
      by (cases v; cases nd) auto
    with True p Cons show ?thesis by auto
  next
    case False
    have "\<not> (fne nd nd \<and> fgt nd (Val 0))"
      by (cases nd) auto
    with False p Cons show ?thesis by auto
  qed
qed

lemma valid_data_no_nodata:
  "filter (\<lambda>v. fgt v (Val 0))
     (map (\<lambda>p. if fst p then snd p else Val 0) px) =
   filter (\<lambda>v. fgt v (Val 0)) (map snd (filter fst px))"
  by (induction px) auto

lemma mask_Some:
  "window src geom = Some px \<Longrightarrow>
     mask src geom = Some (map (\<lambda>p. if fst p then snd p
        else (case nodata src of None \<Rightarrow> Val 0 | Some nd \<Rightarrow> nd)) px)"
  by (simp add: mask_def case_prod_unfold)

lemma sum_or_zero:
  "NaN \<notin> set xs \<Longrightarrow>
     (if length xs > 0 then np_sum xs else Val 0) = Val (sum_list (dropna xs))"
  by (auto simp: np_sum_def)

lemma grid_population_eq:
  "grid_population src geom =
     (case window src geom of
        None \<Rightarrow> Val 0
      | Some px \<Rightarrow>
          Val (sum_list (dropna
            (filter (\<lambda>v. Some v \<noteq> nodata src \<and> fgt v (Val 0)) (map snd (filter fst px))))))"
proof (cases "window src geom")
  case None
  then show ?thesis by (simp add: grid_population_def mask_def)
next
  case (Some px)
  note m = mask_Some [OF Some]
  show ?thesis
  proof (cases "nodata src")
    case None
    let ?X = "filter (\<lambda>v. fgt v (Val 0)) (map (\<lambda>p. if fst p then snd p else Val 0) px)"
    have 1: "grid_population src geom = (if length ?X > 0 then np_sum ?X else Val 0)"
      by (simp only: grid_population_def m None option.case Let_def cong: if_cong)
    have 2: "(if length ?X > 0 then np_sum ?X else Val 0) = Val (sum_list (dropna ?X))"
      by (rule sum_or_zero) simp
    have 3: "?X = filter (\<lambda>v. fgt v (Val 0)) (map snd (filter fst px))"
      by (rule valid_data_no_nodata)
    have "grid_population src geom = Val (sum_list (dropna ?X))"
      using 1 2 by (rule trans)
    then have "grid_population src geom =
        Val (sum_list (dropna (filter (\<lambda>v. fgt v (Val 0)) (map snd (filter fst px)))))"
      unfolding 3 .
    then show ?thesis
      by (simp add: Some None)
  next
    case nd: (Some nd)
    let ?X = "filter (\<lambda>v. fgt v (Val 0))
      (filter (\<lambda>v. fne v nd) (map (\<lambda>p. if fst p then snd p else nd) px))"
    have 1: "grid_population src geom = (if length ?X > 0 then np_sum ?X else Val 0)"
      by (simp only: grid_population_def m nd option.case Let_def cong: if_cong)
    have 2: "(if length ?X > 0 then np_sum ?X else Val 0) = Val (sum_list (dropna ?X))"
      by (rule sum_or_zero) simp
    have 3: "?X = filter (\<lambda>v. Some v \<noteq> Some nd \<and> fgt v (Val 0)) (map snd (filter fst px))"
      by (rule valid_data_nodata)
    have "grid_population src geom = Val (sum_list (dropna ?X))"
      using 1 2 by (rule trans)
    then have "grid_population src geom =
        Val (sum_list (dropna
          (filter (\<lambda>v. Some v \<noteq> Some nd \<and> fgt v (Val 0)) (map snd (filter fst px)))))"
      unfolding 3 .
    then show ?thesis
      by (simp add: Some nd)
  qed
qed

lemma populations_loop_map: "populations_loop src grids = map (grid_population src) grids"
  by (induction grids) simp_all

lemma zip_map_same: "zip xs (map f xs) = map (\<lambda>x. (x, f x)) xs"
  by (induction xs) simp_all

text \<open>
  Claim C4. \<open>extract_population\<close> gives every grid, in order, one population: when \<open>mask\<close>
  raises for the grid, the fallback 0, and the loop goes on with the next grid; otherwise
  the sum of the raster values of the pixels inside the grid's polygon that are not the
  raster's nodata value and are strictly positive, which is 0 when there is no such pixel.
  Pixel values are exact reals or NaN, so the sum is the exact one.
\<close>

theorem extract_population_sum:
  "extract_population grids src =
     map (\<lambda>geom.
            (geom,
             case window src geom of
               None \<Rightarrow> Val 0
             | Some px \<Rightarrow>
                 Val (sum_list (dropna
                   (filter (\<lambda>v. Some v \<noteq> nodata src \<and> fgt v (Val 0))
                      (map snd (filter fst px)))))))
         grids"
  unfolding extract_population_def populations_loop_map zip_map_same
  by (simp add: grid_population_eq)

theorem extract_population_sum_witness:
  "extract_population [0 :: nat, 1]
     \<lparr> nodata = Some (Val 255),
       window = (\<lambda>g. if g = 0
                    then Some [(True, Val 3), (True, Val 255), (False, Val 5),
                               (True, Val 0), (True, Val 2)]
                    else None) \<rparr>
   = [(0, Val 5), (1, Val 0)]"
  using extract_population_sum [of "[0 :: nat, 1]"
     "\<lparr> nodata = Some (Val 255),
       window = (\<lambda>g. if g = 0
                    then Some [(True, Val 3), (True, Val 255), (False, Val 5),
                               (True, Val 0), (True, Val 2)]
                    else None) \<rparr>"]
  by simp

subsection \<open>Populations are not negative\<close>

lemma sum_list_dropna_pos:
  "0 \<le> sum_list (dropna (filter (\<lambda>v. Q v \<and> fgt v (Val 0)) xs))"
proof (induction xs)
  case Nil
  then show ?case by simp
next
  case (Cons x xs)
  then show ?case by (cases x) auto
qed

lemma grid_population_nonneg: "fle (Val 0) (grid_population src geom)"
  unfolding grid_population_eq
  by (cases "window src geom") (simp_all add: sum_list_dropna_pos)


lemma facility_metrics_pop_within:
  assumes "facility_metrics grids dn fname = Some m"
    and "fg = filter (\<lambda>g. assigned_facility g = Some fname) (rows grids)"
  shows "pop_within_5km m =
       (if ''population'' \<in> set (columns grids) then pop_within fg 5 else 0)"
    and "pop_within_10km m =
       (if ''population'' \<in> set (columns grids) then pop_within fg 10 else 0)"
    and "pop_within_20km m =
       (if ''population'' \<in> set (columns grids) then pop_within fg 20 else 0)"
  using assms
  by (auto simp: facility_metrics_def Let_def split: bind_splits if_splits)

lemma district_summary_pop_within:
  assumes "district_summary grids dn = Some m"
  shows "pop_within_5km m =
       (if ''population'' \<in> set (columns grids) then pop_within (rows grids) 5 else 0)"
    and "pop_within_10km m =
       (if ''population'' \<in> set (columns grids) then pop_within (rows grids) 10 else 0)"
    and "pop_within_20km m =
       (if ''population'' \<in> set (columns grids) then pop_within (rows grids) 20 else 0)"
  using assms
  by (auto simp: district_summary_def Let_def split: bind_splits if_splits)

lemma result_rows:
  assumes "compute_facility_metrics grids dn = Some res" and "m \<in> set res"
  shows "m = no_facilities dn
       \<or> district_summary grids dn = Some m
       \<or> (\<exists>fname. facility_metrics grids dn fname = Some m)"
proof (cases "''route_distance_km'' \<in> set (columns grids)")
  case True
  from result_row_cases [OF assms True] show ?thesis by blast
next
  case False
  show ?thesis
  proof (cases "''assigned_facility'' \<in> set (columns grids)
         \<and> (\<exists>g \<in> set (rows grids). assigned_facility g \<noteq> None)")
    case True
    then have "compute_facility_metrics grids dn = None"
      using compute_facility_metrics_KeyError [of grids dn] False by blast
    with assms(1) show ?thesis by simp
  next
    case False
    then have "compute_facility_metrics grids dn = Some [no_facilities dn]"
      by (auto simp: compute_facility_metrics_def list_all_iff)
    with assms(1) have "res = [no_facilities dn]" by simp
    with assms(2) show ?thesis by simp
  qed
qed

lemma pop_within_nonneg:
  assumes "\<forall>g \<in> set gs. fle (Val 0) (population g)"
  shows "0 \<le> pop_within gs band"
  using pd_sum_filter_bounds [OF assms, of "\<lambda>g. fle (route_distance_km g) (Val band)"]
  by (simp add: pop_within_def)

lemma metrics_row_nonneg:
  assumes "compute_facility_metrics grids dn = Some res" and "m \<in> set res"
    and pp: "\<forall>g \<in> set (rows grids). fle (Val 0) (population g)"
  shows "0 \<le> population_served m \<and> 0 \<le> pop_within_5km m
       \<and> 0 \<le> pop_within_10km m \<and> 0 \<le> pop_within_20km m"
proof -
  from result_rows [OF assms(1,2)]
  consider (none) "m = no_facilities dn"
    | (total) "district_summary grids dn = Some m"
    | (facility) fname where "facility_metrics grids dn fname = Some m"
    by blast
  then show ?thesis
  proof cases
    case none
    then show ?thesis by (simp add: no_facilities_def)
  next
    case total
    show ?thesis
      using district_summary_population_served [OF total]
        district_summary_pop_within [OF total]
        pd_sum_nonneg [OF pp] pop_within_nonneg [OF pp]
      by simp
  next
    case facility
    define fg where "fg = filter (\<lambda>g. assigned_facility g = Some fname) (rows grids)"
    have pf: "\<forall>g \<in> set fg. fle (Val 0) (population g)"
      using pp by (simp add: fg_def)
    show ?thesis
      using facility_metrics_population_served [OF facility]
        facility_metrics_pop_within [OF facility fg_def]
        pd_sum_nonneg [OF pf] pop_within_nonneg [OF pf]
      by (simp add: fg_def [symmetric])
  qed
qed

lemma extract_population_columns:
  "map fst (extract_population geoms src) = geoms"
  "map snd (extract_population geoms src) = map (grid_population src) geoms"
  by (simp_all add: extract_population_def populations_loop_map zip_map_same comp_def)

text \<open>
  Claim C9. \<open>extract_population\<close> returns one population per input grid, in the order of
  the grids, and every one is a number that is not negative. Hence, when the population
  column of the frame read by \<open>compute_facility_metrics\<close> is the one that
  \<open>extract_population\<close> produced, \<open>population_served\<close>, \<open>pop_within_5km\<close>,
  \<open>pop_within_10km\<close> and \<open>pop_within_20km\<close> are not negative in every row of the metrics
  table that it returns.
\<close>

theorem populations_nonnegative:
  "length (extract_population geoms src) = length geoms \<and>
   map fst (extract_population geoms src) = geoms \<and>
   list_all (\<lambda>p. fle (Val 0) p) (map snd (extract_population geoms src)) \<and>
   (map population (rows grids) = map snd (extract_population geoms src)
      \<and> compute_facility_metrics grids dn = Some res \<longrightarrow>
    list_all (\<lambda>m. 0 \<le> population_served m \<and> 0 \<le> pop_within_5km m
                 \<and> 0 \<le> pop_within_10km m \<and> 0 \<le> pop_within_20km m) res)"
proof (intro conjI impI)
  show "length (extract_population geoms src) = length geoms"
    using arg_cong [OF extract_population_columns(1) [of geoms src], of length] by simp
  show "map fst (extract_population geoms src) = geoms"
    by (rule extract_population_columns(1))
  show nn: "list_all (\<lambda>p. fle (Val 0) p) (map snd (extract_population geoms src))"
    by (simp add: extract_population_columns(2) list_all_iff grid_population_nonneg)
  assume a: "map population (rows grids) = map snd (extract_population geoms src)
      \<and> compute_facility_metrics grids dn = Some res"
  have "\<forall>p \<in> set (map population (rows grids)). fle (Val 0) p"
    using nn a by (simp add: list_all_iff)
  then have pp: "\<forall>g \<in> set (rows grids). fle (Val 0) (population g)"
    by simp
  show "list_all (\<lambda>m. 0 \<le> population_served m \<and> 0 \<le> pop_within_5km m
                 \<and> 0 \<le> pop_within_10km m \<and> 0 \<le> pop_within_20km m) res"
    unfolding list_all_iff
    using metrics_row_nonneg [OF _ _ pp, of dn res] a by blast
qed


theorem populations_nonnegative_witness:
  "extract_population [0 :: nat, 1]
     \<lparr> nodata = Some (Val 255),
       window = (\<lambda>g. if g = 0
                    then Some [(True, Val 3), (True, Val 255), (False, Val 5),
                               (True, Val 0), (True, Val 2)]
                    else None) \<rparr>
     = [(0, Val 5), (1, Val 0)] \<and>
   (\<exists>ms s.
      compute_facility_metrics
        \<lparr> columns = [''assigned_facility'', ''population'', ''route_distance_km''],
          rows = [\<lparr> assigned_facility = Some ''A'', population = Val 5, route_distance_km = Val 2 \<rparr>,
                  \<lparr> assigned_facility = Some ''A'', population = Val 0, route_distance_km = Val 7 \<rparr>] \<rparr>
        ''D'' = Some (ms @ [s]) \<and>
      list_all (\<lambda>m. 0 \<le> population_served m \<and> 0 \<le> pop_within_5km m
                   \<and> 0 \<le> pop_within_10km m \<and> 0 \<le> pop_within_20km m) (ms @ [s]))"
proof -
  let ?src = "\<lparr> nodata = Some (Val 255),
       window = (\<lambda>g :: nat. if g = 0
                    then Some [(True, Val 3), (True, Val 255), (False, Val 5),
                               (True, Val 0), (True, Val 2)]
                    else None) \<rparr>"
  let ?G = "\<lparr> columns = [''assigned_facility'', ''population'', ''route_distance_km''],
          rows = [\<lparr> assigned_facility = Some ''A'', population = Val 5, route_distance_km = Val 2 \<rparr>,
                  \<lparr> assigned_facility = Some ''A'', population = Val 0, route_distance_km = Val 7 \<rparr>] \<rparr>"
  have e: "extract_population [0 :: nat, 1] ?src = [(0, Val 5), (1, Val 0)]"
    by (simp add: extract_population_def grid_population_eq)
  have h: "map population (rows ?G) = map snd (extract_population [0 :: nat, 1] ?src)"
    unfolding e by simp
  have "\<exists>ms s. compute_facility_metrics ?G ''D'' = Some (ms @ [s])"
    using compute_facility_metrics_assigned [of ?G "''D''"] by auto
  then obtain ms s where r: "compute_facility_metrics ?G ''D'' = Some (ms @ [s])"
    by blast
  from populations_nonnegative [of "[0 :: nat, 1]" ?src ?G "''D''" "ms @ [s]"] h r
  have "list_all (\<lambda>m. 0 \<le> population_served m \<and> 0 \<le> pop_within_5km m
                   \<and> 0 \<le> pop_within_10km m \<and> 0 \<le> pop_within_20km m) (ms @ [s])"
    by blast
  with e r show ?thesis by blast
qed

section \<open>Properties of the accessibility script\<close>

lemma set_column_mem: "c \<in> set (set_column c cols)"
  by (simp add: set_column_def)

lemma set_column_mono: "c \<in> set cols \<Longrightarrow> c \<in> set (set_column c' cols)"
  by (simp add: set_column_def)

text \<open>
  Claim C8. When the loaded facilities table has the required columns and no row, the
  script writes a frame and makes no routing request, whatever the server: the frame
  has the columns \<open>assigned_facility\<close>, \<open>route_distance_km\<close> and \<open>travel_time_min\<close>, it has the
  grids of the input in their order (centroids and populations unchanged), and every grid
  has \<open>assigned_facility\<close> None and \<open>route_distance_km\<close> and \<open>travel_time_min\<close> NaN.
\<close>

theorem main_no_facilities:
  assumes "list_all (\<lambda>col. col \<in> set (columns facilities)) [''name'', ''latitude'', ''longitude'']"
    and "rows facilities = []"
  shows "\<exists>out. main http grids facilities osrm_host osrm_port = Some (out, []) \<and>
     ''assigned_facility'' \<in> set (columns out) \<and>
     ''route_distance_km'' \<in> set (columns out) \<and>
     ''travel_time_min'' \<in> set (columns out) \<and>
     length (rows out) = length (rows grids) \<and>
     (\<forall>row \<in> set (rows out).
        assigned_facility row = None \<and> route_distance_km row = NaN \<and> travel_time_min row = NaN) \<and>
     map centroid_lat (rows out) = map centroid_lat (rows grids) \<and>
     map centroid_lon (rows out) = map centroid_lon (rows grids) \<and>
     map population (rows out) = map population (rows grids)"
  using assms
  by (auto simp: main_def set_column_mem set_column_mono)

theorem main_no_facilities_witness:
  "\<exists>out.
     main (\<lambda>k url. Response 200 None)
       \<lparr> columns = [''centroid_lat'', ''centroid_lon'', ''population''],
         rows = [\<lparr> assigned_facility = Some ''X'', population = Val 12, route_distance_km = Val 1,
                   centroid_lat = 10, centroid_lon = 20, assigned_facility_id = 0,
                   assigned_facility_lat = 0, assigned_facility_lon = 0,
                   straight_line_distance_km = Val 0, travel_time_min = Val 0 \<rparr>] \<rparr>
       \<lparr> columns = [''name'', ''latitude'', ''longitude''], rows = [] \<rparr>
       ''localhost'' 5000 = Some (out, []) \<and>
     columns out = [''centroid_lat'', ''centroid_lon'', ''population'',
                    ''assigned_facility'', ''route_distance_km'', ''travel_time_min''] \<and>
     map assigned_facility (rows out) = [None] \<and>
     map route_distance_km (rows out) = [NaN] \<and>
     map travel_time_min (rows out) = [NaN] \<and>
     map population (rows out) = [Val 12]"
proof -
  let ?G = "\<lparr> columns = [''centroid_lat'', ''centroid_lon'', ''population''],
         rows = [\<lparr> assigned_facility = Some ''X'', population = Val 12, route_distance_km = Val 1,
                   centroid_lat = 10, centroid_lon = 20, assigned_facility_id = 0,
                   assigned_facility_lat = 0, assigned_facility_lon = 0,
                   straight_line_distance_km = Val 0, travel_time_min = Val 0 \<rparr>] \<rparr>"
  let ?F = "\<lparr> columns = [''name'', ''latitude'', ''longitude''], rows = ([] :: facility list) \<rparr>"
  have c: "list_all (\<lambda>col. col \<in> set (columns ?F)) [''name'', ''latitude'', ''longitude'']"
    by simp
  have e: "rows ?F = []" by simp
  from main_no_facilities [OF c e, of "\<lambda>k url. Response 200 None" ?G "''localhost''" 5000]
  obtain out where o: "main (\<lambda>k url. Response 200 None) ?G ?F ''localhost'' 5000 = Some (out, [])"
    by blast
  then have "out = \<lparr> columns = [''centroid_lat'', ''centroid_lon'', ''population'',
                    ''assigned_facility'', ''route_distance_km'', ''travel_time_min''],
        rows = [\<lparr> assigned_facility = None, population = Val 12, route_distance_km = NaN,
                   centroid_lat = 10, centroid_lon = 20, assigned_facility_id = 0,
                   assigned_facility_lat = 0, assigned_facility_lon = 0,
                   straight_line_distance_km = Val 0, travel_time_min = NaN \<rparr>] \<rparr>"
    by (simp add: main_def set_column_def)
  with o show ?thesis by simp
qed

subsection \<open>Assignment to the nearest facility\<close>

lemma nearest_min:
  "ds \<noteq> [] \<Longrightarrow> nearest ds < length ds \<and> (\<forall>d \<in> set ds. ds ! nearest ds \<le> d)"
proof (induction ds rule: nearest.induct)
  case 1
  then show ?case by simp
next
  case (2 d)
  then show ?case by simp
next
  case (3 d e ds)
  let ?i = "nearest (e # ds)"
  from 3 have ih: "?i < length (e # ds)" "\<forall>d' \<in> set (e # ds). (e # ds) ! ?i \<le> d'"
    by simp_all
  show ?case
  proof (cases "d \<le> (e # ds) ! ?i")
    case True
    then have "nearest (d # e # ds) = 0" by (simp add: Let_def)
    moreover have "\<forall>d' \<in> set (d # e # ds). d \<le> d'"
      using True ih(2) by force
    ultimately show ?thesis by simp
  next
    case False
    then have n: "nearest (d # e # ds) = Suc ?i" by (simp add: Let_def)
    have "\<forall>d' \<in> set (d # e # ds). (e # ds) ! ?i \<le> d'"
      using False ih(2) by force
    with n ih(1) show ?thesis by simp
  qed
qed

lemma assign_row_nearest:
  assumes "facilities \<noteq> []"
  shows "\<exists>k < length facilities.
     assigned_facility (assign_row facilities row) = name (facilities ! k) \<and>
     assigned_facility_id (assign_row facilities row) = k \<and>
     assigned_facility_lat (assign_row facilities row) = latitude (facilities ! k) \<and>
     assigned_facility_lon (assign_row facilities row) = longitude (facilities ! k) \<and>
     centroid_lat (assign_row facilities row) = centroid_lat row \<and>
     centroid_lon (assign_row facilities row) = centroid_lon row \<and>
     (\<forall>f \<in> set facilities.
        euclidean (centroid_lat row, centroid_lon row)
          (latitude (facilities ! k), longitude (facilities ! k))
        \<le> euclidean (centroid_lat row, centroid_lon row) (latitude f, longitude f)) \<and>
     straight_line_distance_km (assign_row facilities row) =
       Val (euclidean (centroid_lat row, centroid_lon row)
          (latitude (facilities ! k), longitude (facilities ! k)) * 111)"
proof -
  define coords where "coords = map (\<lambda>f. (latitude f, longitude f)) facilities"
  define ds where "ds = map (euclidean (centroid_lat row, centroid_lon row)) coords"
  define k where "k = nearest ds"
  have ne: "ds \<noteq> []" using assms by (simp add: ds_def coords_def)
  have len: "length ds = length facilities" by (simp add: ds_def coords_def)
  from nearest_min [OF ne] have k: "k < length facilities" and m: "\<forall>d \<in> set ds. ds ! k \<le> d"
    by (simp_all add: k_def len)
  have dk: "ds ! k = euclidean (centroid_lat row, centroid_lon row)
      (latitude (facilities ! k), longitude (facilities ! k))"
    using k by (simp add: ds_def coords_def)
  have ck: "coords ! k = (latitude (facilities ! k), longitude (facilities ! k))"
    using k by (simp add: coords_def)
  have mn: "\<forall>f \<in> set facilities. ds ! k
        \<le> euclidean (centroid_lat row, centroid_lon row) (latitude f, longitude f)"
    using m by (simp add: ds_def coords_def)
  have r: "assign_row facilities row =
      row\<lparr> assigned_facility := name (facilities ! k),
           assigned_facility_id := k,
           assigned_facility_lat := fst (coords ! k),
           assigned_facility_lon := snd (coords ! k),
           straight_line_distance_km := Val (ds ! k * 111) \<rparr>"
    by (simp add: assign_row_def Let_def coords_def ds_def k_def)
  show ?thesis
    using k mn by (intro exI [of _ k]) (simp add: r ck dk)
qed

text \<open>
  Claim C1. On a grids frame with the centroid columns and a facilities table with the
  columns \<open>name\<close>, \<open>latitude\<close> and \<open>longitude\<close> and at least one row,
  \<open>assign_grids_to_facilities\<close> returns the grids in their order, and for every grid
  there is a facility \<open>k\<close> of the table that the grid is assigned to (its name, position in
  the table and coordinates are recorded in the row) such that no facility of the table is
  nearer to the centroid of the grid, in the Euclidean distance on (latitude, longitude);
  and \<open>straight_line_distance_km\<close> is that smallest distance times 111. Coordinates and
  distances are exact reals.
\<close>

theorem assign_grids_to_facilities_nearest:
  assumes "''centroid_lat'' \<in> set (columns grids)" and "''centroid_lon'' \<in> set (columns grids)"
    and "''name'' \<in> set (columns facilities)"
    and "''latitude'' \<in> set (columns facilities)" and "''longitude'' \<in> set (columns facilities)"
    and "rows facilities \<noteq> []"
    and "i < length (rows grids)"
  shows "\<exists>out k. assign_grids_to_facilities grids facilities = Some out \<and>
     length (rows out) = length (rows grids) \<and>
     ''assigned_facility'' \<in> set (columns out) \<and>
     ''straight_line_distance_km'' \<in> set (columns out) \<and>
     centroid_lat (rows out ! i) = centroid_lat (rows grids ! i) \<and>
     centroid_lon (rows out ! i) = centroid_lon (rows grids ! i) \<and>
     k < length (rows facilities) \<and>
     assigned_facility (rows out ! i) = name (rows facilities ! k) \<and>
     assigned_facility_id (rows out ! i) = k \<and>
     assigned_facility_lat (rows out ! i) = latitude (rows facilities ! k) \<and>
     assigned_facility_lon (rows out ! i) = longitude (rows facilities ! k) \<and>
     (\<forall>f \<in> set (rows facilities).
        euclidean (centroid_lat (rows grids ! i), centroid_lon (rows grids ! i))
          (latitude (rows facilities ! k), longitude (rows facilities ! k))
        \<le> euclidean (centroid_lat (rows grids ! i), centroid_lon (rows grids ! i))
             (latitude f, longitude f)) \<and>
     straight_line_distance_km (rows out ! i) =
       Val (euclidean (centroid_lat (rows grids ! i), centroid_lon (rows grids ! i))
          (latitude (rows facilities ! k), longitude (rows facilities ! k)) * 111)"
proof -
  let ?out = "\<lparr> columns = fold set_column
                      [''assigned_facility'', ''assigned_facility_id'',
                       ''assigned_facility_lat'', ''assigned_facility_lon'',
                       ''straight_line_distance_km''] (columns grids),
                  rows = map (assign_row (rows facilities)) (rows grids) \<rparr>"
  from assms(7) have ne: "rows grids \<noteq> []" by auto
  have o: "assign_grids_to_facilities grids facilities = Some ?out"
    using assms(1-6) ne by (simp add: assign_grids_to_facilities_def)
  have ri: "rows ?out ! i = assign_row (rows facilities) (rows grids ! i)"
    using assms(7) by simp
  have c1: "''assigned_facility'' \<in> set (columns ?out)"
    by (simp add: set_column_def)
  have c2: "''straight_line_distance_km'' \<in> set (columns ?out)"
    by (simp add: set_column_def)
  from assign_row_nearest [OF assms(6), of "rows grids ! i"]
  obtain k where k: "k < length (rows facilities)"
     "assigned_facility (assign_row (rows facilities) (rows grids ! i)) = name (rows facilities ! k)"
     "assigned_facility_id (assign_row (rows facilities) (rows grids ! i)) = k"
     "assigned_facility_lat (assign_row (rows facilities) (rows grids ! i)) = latitude (rows facilities ! k)"
     "assigned_facility_lon (assign_row (rows facilities) (rows grids ! i)) = longitude (rows facilities ! k)"
     "centroid_lat (assign_row (rows facilities) (rows grids ! i)) = centroid_lat (rows grids ! i)"
     "centroid_lon (assign_row (rows facilities) (rows grids ! i)) = centroid_lon (rows grids ! i)"
     "\<forall>f \<in> set (rows facilities).
        euclidean (centroid_lat (rows grids ! i), centroid_lon (rows grids ! i))
          (latitude (rows facilities ! k), longitude (rows facilities ! k))
        \<le> euclidean (centroid_lat (rows grids ! i), centroid_lon (rows grids ! i))
             (latitude f, longitude f)"
     "straight_line_distance_km (assign_row (rows facilities) (rows grids ! i)) =
       Val (euclidean (centroid_lat (rows grids ! i), centroid_lon (rows grids ! i))
          (latitude (rows facilities ! k), longitude (rows facilities ! k)) * 111)"
    by blast
  have l: "length (rows ?out) = length (rows grids)" by simp
  show ?thesis
    apply (intro exI [of _ ?out] exI [of _ k] conjI)
    apply (rule o)
    apply (rule l)
    apply (rule c1)
    apply (rule c2)
    unfolding ri
    apply (rule k(6))
    apply (rule k(7))
    apply (rule k(1))
    apply (rule k(2))
    apply (rule k(3))
    apply (rule k(4))
    apply (rule k(5))
    apply (rule k(8))
    apply (rule k(9))
    done
qed

theorem assign_grids_to_facilities_nearest_witness:
  "\<exists>out.
     assign_grids_to_facilities
       \<lparr> columns = [''centroid_lat'', ''centroid_lon''],
         rows = [\<lparr> assigned_facility = None, population = Val 1, route_distance_km = NaN,
                   centroid_lat = 3, centroid_lon = 0, assigned_facility_id = 0,
                   assigned_facility_lat = 0, assigned_facility_lon = 0,
                   straight_line_distance_km = NaN, travel_time_min = NaN \<rparr>] \<rparr>
       \<lparr> columns = [''name'', ''latitude'', ''longitude''],
         rows = [\<lparr> name = Some ''B'', latitude = 3, longitude = 4 \<rparr>,
                 \<lparr> name = Some ''A'', latitude = 0, longitude = 0 \<rparr>] \<rparr>
       = Some out \<and>
     assigned_facility (rows out ! 0) = Some ''A'' \<and>
     assigned_facility_id (rows out ! 0) = 1 \<and>
     assigned_facility_lat (rows out ! 0) = 0 \<and>
     assigned_facility_lon (rows out ! 0) = 0 \<and>
     straight_line_distance_km (rows out ! 0) = Val 333"
proof -
  let ?g = "\<lparr> assigned_facility = None, population = Val 1, route_distance_km = NaN,
                   centroid_lat = 3, centroid_lon = 0, assigned_facility_id = 0,
                   assigned_facility_lat = 0, assigned_facility_lon = 0,
                   straight_line_distance_km = NaN, travel_time_min = NaN \<rparr>"
  let ?G = "\<lparr> columns = [''centroid_lat'', ''centroid_lon''], rows = [?g] \<rparr>"
  let ?B = "\<lparr> name = Some ''B'', latitude = 3, longitude = 4 \<rparr>"
  let ?A = "\<lparr> name = Some ''A'', latitude = 0, longitude = 0 \<rparr>"
  let ?F = "\<lparr> columns = [''name'', ''latitude'', ''longitude''], rows = [?B, ?A] \<rparr>"
  have s9: "sqrt 9 = (3 :: real)" using real_sqrt_abs [of 3] by simp
  have s16: "sqrt 16 = (4 :: real)" using real_sqrt_abs [of 4] by simp
  have eA: "euclidean (3, 0) (0, 0) = 3" by (simp add: euclidean_def s9)
  have eB: "euclidean (3, 0) (3, 4) = 4" by (simp add: euclidean_def s16)
  have h1: "''centroid_lat'' \<in> set (columns ?G)" by simp
  have h2: "''centroid_lon'' \<in> set (columns ?G)" by simp
  have h3: "''name'' \<in> set (columns ?F)" by simp
  have h4: "''latitude'' \<in> set (columns ?F)" by simp
  have h5: "''longitude'' \<in> set (columns ?F)" by simp
  have h6: "rows ?F \<noteq> []" by simp
  have h7: "0 < length (rows ?G)" by simp
  from assign_grids_to_facilities_nearest [OF h1 h2 h3 h4 h5 h6 h7]
  obtain out k where r: "assign_grids_to_facilities ?G ?F = Some out"
      "k < length (rows ?F)"
      "assigned_facility (rows out ! 0) = name (rows ?F ! k)"
      "assigned_facility_id (rows out ! 0) = k"
      "assigned_facility_lat (rows out ! 0) = latitude (rows ?F ! k)"
      "assigned_facility_lon (rows out ! 0) = longitude (rows ?F ! k)"
      "\<forall>f \<in> set (rows ?F).
        euclidean (centroid_lat (rows ?G ! 0), centroid_lon (rows ?G ! 0))
          (latitude (rows ?F ! k), longitude (rows ?F ! k))
        \<le> euclidean (centroid_lat (rows ?G ! 0), centroid_lon (rows ?G ! 0))
             (latitude f, longitude f)"
      "straight_line_distance_km (rows out ! 0) =
       Val (euclidean (centroid_lat (rows ?G ! 0), centroid_lon (rows ?G ! 0))
          (latitude (rows ?F ! k), longitude (rows ?F ! k)) * 111)"
    by (elim exE conjE) (rule that; assumption)
  from r(2) have "k = 0 \<or> k = 1" by auto
  moreover have "k \<noteq> 0"
  proof
    assume "k = 0"
    with r(7) have "euclidean (3, 0) (3, 4) \<le> euclidean (3, 0) (0, 0)" by simp
    then show False by (simp add: eA eB)
  qed
  ultimately have k: "k = 1" by simp
  show ?thesis
    using r(1,3,4,5,6,8) by (intro exI [of _ out]) (simp add: k eA)
qed

subsection \<open>Routing\<close>

text \<open>
  Claim C2 does not hold: a failure inside the \<open>try\<close> block can leave the function with an
  exception. The server answers the request of the only grid with status 200 and the body
  \<open>{"code": "Ok", "routes": [{"distance": 1200, "duration": null}]}\<close>. Line 98 appends
  1.2 km to \<open>route_distances\<close>, line 99 raises TypeError on \<open>None / 60\<close>, and the handler
  appends the fallback to both lists: \<open>route_distances\<close> has two values for one grid,
  \<open>route_durations\<close> one, and the assignment of line 118 raises ValueError, which
  nothing catches.
\<close>

theorem calculate_osrm_distances_propagates:
  "osrm_loop
     (\<lambda>k url. Response 200 (Some (JDict
        [(''code'', JStr ''Ok''),
         (''routes'', JList [JDict [(''distance'', JNum 1200), (''duration'', JNull)]])])))
     ''localhost'' 5000 True
     [\<lparr> assigned_facility = Some ''A'', population = Val 1, route_distance_km = NaN,
        centroid_lat = 1, centroid_lon = 2, assigned_facility_id = 0,
        assigned_facility_lat = 3, assigned_facility_lon = 4,
        straight_line_distance_km = Val 3, travel_time_min = NaN \<rparr>]
     (([], []), [])
   = Some (([Val (1200 / 1000), Val 3], [Val 6]), [(''localhost'', 5000, 2, 1, 4, 3)])
   \<and>
   calculate_osrm_distances
     (\<lambda>k url. Response 200 (Some (JDict
        [(''code'', JStr ''Ok''),
         (''routes'', JList [JDict [(''distance'', JNum 1200), (''duration'', JNull)]])])))
     \<lparr> columns = [''centroid_lat'', ''centroid_lon'', ''assigned_facility'',
                  ''assigned_facility_id'', ''assigned_facility_lat'',
                  ''assigned_facility_lon'', ''straight_line_distance_km''],
       rows = [\<lparr> assigned_facility = Some ''A'', population = Val 1, route_distance_km = NaN,
                 centroid_lat = 1, centroid_lon = 2, assigned_facility_id = 0,
                 assigned_facility_lat = 3, assigned_facility_lon = 4,
                 straight_line_distance_km = Val 3, travel_time_min = NaN \<rparr>] \<rparr>
     ''localhost'' 5000
   = None"
  by (simp add: calculate_osrm_distances_def route_row_def try_route_def first_route_def
      fallback_def Let_def)

section \<open>Properties of the grid generation\<close>



end
